theory Spec2Isabelle
  imports Complex_Main
begin

section \<open>The gaze grid of face-tracker.js\<close>

text \<open>
  A shallow embedding of \<^verbatim>\<open>src/face-tracker.js\<close>. A JavaScript Number that
  holds a finite value is taken as the real it denotes (\<^typ>\<open>real\<close>), and one that
  the code has made integral (the result of \<^verbatim>\<open>Math.round\<close>) as an \<^typ>\<open>int\<close>;
  the rounding error of IEEE doubles is not modelled. The two places where the code can
  meet a non-finite Number (a division by a zero width or height) are modelled with the
  type \<open>jsnum\<close> below.
\<close>

subsection \<open>Grid configuration (lines 1-5)\<close>

definition P_MIN :: int where
  "P_MIN = - 15"

definition P_MAX :: int where
  "P_MAX = 15"

definition STEP :: int where
  "STEP = 3"

definition SIZE :: nat where
  "SIZE = 256"

subsection \<open>clamp and quantizeToGrid (lines 7-15)\<close>

text \<open>
  \<^verbatim>\<open>clamp(value, min, max) = Math.max(min, Math.min(max, value))\<close>, with the
  arguments in the order of the source. The code calls it on real samples (bounds -1 and
  1) and on the integral snapped value (bounds P_MIN and P_MAX).
\<close>

definition clamp :: "'a::linorder \<Rightarrow> 'a \<Rightarrow> 'a \<Rightarrow> 'a" where
  "clamp v lo hi = max lo (min hi v)"

text \<open>
  \<^verbatim>\<open>Math.round\<close>: the integer closest to the argument, and of two equally close
  integers the one closer to plus infinity.
\<close>

definition Math_round :: "real \<Rightarrow> int" where
  "Math_round x = \<lfloor>x + 1 / 2\<rfloor>"

text \<open>The local constants \<^verbatim>\<open>raw\<close> (line 12) and \<^verbatim>\<open>snapped\<close> (line 13).\<close>

definition raw_of :: "real \<Rightarrow> real" where
  "raw_of val = real_of_int P_MIN + (val + 1) * real_of_int (P_MAX - P_MIN) / 2"

definition snapped_of :: "real \<Rightarrow> int" where
  "snapped_of val = Math_round (raw_of val / real_of_int STEP) * STEP"

definition quantizeToGrid :: "real \<Rightarrow> int" where
  "quantizeToGrid val = clamp (snapped_of val) P_MIN P_MAX"

text \<open>
  The pair-level operation as both callers perform it (\<^verbatim>\<open>setFromClient\<close>, lines
  59-63, and \<^verbatim>\<open>handleOrientation\<close>, lines 102-106): each axis is clamped to
  [-1, 1] and then handed to \<^verbatim>\<open>quantizeToGrid\<close>.
\<close>

definition quantize :: "real \<Rightarrow> real \<Rightarrow> int \<times> int" where
  "quantize x y = (quantizeToGrid (clamp x (- 1) 1), quantizeToGrid (clamp y (- 1) 1))"

text \<open>The eleven values an axis of the grid can take under the default configuration.\<close>

definition grid :: "int set" where
  "grid = {- 15, - 12, - 9, - 6, - 3, 0, 3, 6, 9, 12, 15}"

subsection \<open>sanitize and gridToFilename (lines 17-24)\<close>

text \<open>The decimal digits of a natural number, most significant first (\<open>0\<close> is "0").\<close>

definition digit :: "nat \<Rightarrow> char" where
  "digit d = ''0123456789'' ! d"

fun digits :: "nat \<Rightarrow> string" where
  "digits n = (if n < 10 then [digit n] else digits (n div 10) @ [digit (n mod 10)])"

declare digits.simps [simp del]

text \<open>
  \<^verbatim>\<open>Number(val).toFixed(1)\<close> on an integral Number below 10^21 in magnitude, step
  by step as ECMAScript's Number.prototype.toFixed runs with one fraction digit: the sign is
  split off, \<open>n\<close> is the integer closest to ten times the magnitude (for an integral
  argument exactly ten times it), its digits are padded to two at least, and the point goes
  before the last digit. The only caller passes a result of \<^verbatim>\<open>quantizeToGrid\<close>,
  which lies between -15 and 15, so toFixed's exponent notation (from 10^21 on) is out of
  reach and not modelled.
\<close>

definition toFixed1 :: "int \<Rightarrow> string" where
  "toFixed1 x =
     (let s = (if x < 0 then ''-'' else []);
          n = nat (10 * \<bar>x\<bar>);
          m = digits n;
          m = (if length m \<le> 1 then replicate (2 - length m) (CHR ''0'') @ m else m);
          k = length m
      in s @ take (k - 1) m @ ''.'' @ drop (k - 1) m)"

text \<open>
  \<^verbatim>\<open>str.replace(a, b)\<close> with a string pattern replaces the first occurrence only;
  both patterns of the source are single characters.
\<close>

fun str_replace :: "char \<Rightarrow> char \<Rightarrow> string \<Rightarrow> string" where
  "str_replace a b [] = []"
| "str_replace a b (c # cs) = (if c = a then b # cs else c # str_replace a b cs)"

definition sanitize :: "int \<Rightarrow> string" where
  "sanitize val =
     (let str = toFixed1 val
      in str_replace (CHR ''.'') (CHR ''p'') (str_replace (CHR ''-'') (CHR ''m'') str))"

definition gridToFilename :: "int \<Rightarrow> int \<Rightarrow> string" where
  "gridToFilename px py =
     ''gaze_px'' @ sanitize px @ ''_py'' @ sanitize py @ ''_'' @ digits SIZE @ ''.webp''"

subsection \<open>Non-finite Numbers on the pointer path\<close>

text \<open>
  \<^verbatim>\<open>setFromClient\<close> divides by half the width and half the height of the
  container's rectangle, which are zero for a container that is not laid out. JavaScript
  does not fail there: a non-zero numerator over (positive) zero is an infinity of the
  numerator's sign, and zero over zero is NaN.
\<close>

datatype jsnum = Fin real | PosInf | NegInf | NaN

definition js_div :: "real \<Rightarrow> real \<Rightarrow> jsnum" where
  "js_div a b =
     (if b \<noteq> 0 then Fin (a / b)
      else if a = 0 then NaN
      else if 0 < a then PosInf else NegInf)"

text \<open>
  \<^verbatim>\<open>clamp\<close> at a possibly non-finite value and finite bounds:
  \<^verbatim>\<open>Math.min\<close> and \<^verbatim>\<open>Math.max\<close> return NaN when an argument is NaN (the
  result \<open>None\<close>), and treat the infinities as the extremes they are.
\<close>

fun clamp_js :: "jsnum \<Rightarrow> real \<Rightarrow> real \<Rightarrow> real option" where
  "clamp_js (Fin v) lo hi = Some (clamp v lo hi)"
| "clamp_js PosInf lo hi = Some (max lo hi)"
| "clamp_js NegInf lo hi = Some lo"
| "clamp_js NaN lo hi = None"

text \<open>
  \<^verbatim>\<open>quantizeToGrid(NaN)\<close> is NaN (every arithmetic step and
  \<^verbatim>\<open>Math.round\<close> keep it), and \<^verbatim>\<open>sanitize(NaN)\<close> is the string "NaN"
  (toFixed returns it, and it has no minus sign or point to replace).
\<close>

definition quantizeToGrid_js :: "real option \<Rightarrow> int option" where
  "quantizeToGrid_js v = map_option quantizeToGrid v"

definition sanitize_js :: "int option \<Rightarrow> string" where
  "sanitize_js v = (case v of None \<Rightarrow> ''NaN'' | Some g \<Rightarrow> sanitize g)"

definition gridToFilename_js :: "int option \<Rightarrow> int option \<Rightarrow> string" where
  "gridToFilename_js px py =
     ''gaze_px'' @ sanitize_js px @ ''_py'' @ sanitize_js py @ ''_'' @ digits SIZE @ ''.webp''"

subsection \<open>The tracker instance (lines 31-136)\<close>

text \<open>
  The closure of \<^verbatim>\<open>initializeFaceTracker\<close>: the base path, the image element's
  \<^verbatim>\<open>src\<close>, the debug element (\<open>None\<close> when there is none) and the three
  variables of lines 47-49.
\<close>

record orientation =
  beta :: real
  gamma :: real

text \<open>
  What the debug element shows, kept as the values its \<^verbatim>\<open>innerHTML\<close> template
  renders: nothing yet, the rounded pointer offsets and the file name (line 28), or the
  two tilt deltas and the file name (line 112).
\<close>

datatype debug_html =
  Blank
  | MouseText int int string
  | OrientationText real real string

record tracker =
  basePath :: string
  img_src :: string
  debugEl :: "debug_html option"
  useOrientation :: bool
  baseOrientation :: orientation
  hasCalibrated :: bool

text \<open>The result of \<^verbatim>\<open>container.getBoundingClientRect()\<close> when a handler runs.\<close>

record rect =
  rect_left :: real
  rect_top :: real
  rect_width :: real
  rect_height :: real

definition updateDebug :: "debug_html option \<Rightarrow> real \<Rightarrow> real \<Rightarrow> string \<Rightarrow> debug_html option" where
  "updateDebug el x y filename =
     (case el of
        None \<Rightarrow> None
      | Some _ \<Rightarrow> Some (MouseText (Math_round x) (Math_round y) filename))"

definition setFromClient :: "rect \<Rightarrow> real \<Rightarrow> real \<Rightarrow> tracker \<Rightarrow> tracker" where
  "setFromClient r clientX clientY s =
     (let centerX = rect_left r + rect_width r / 2;
          centerY = rect_top r + rect_height r / 2;
          nx = js_div (clientX - centerX) (rect_width r / 2);
          ny = js_div (centerY - clientY) (rect_height r / 2);
          clampedX = clamp_js nx (- 1) 1;
          clampedY = clamp_js ny (- 1) 1;
          px = quantizeToGrid_js clampedX;
          py = quantizeToGrid_js clampedY;
          filename = gridToFilename_js px py;
          imagePath = basePath s @ filename
      in s\<lparr>img_src := imagePath,
           debugEl := updateDebug (debugEl s) (clientX - rect_left r) (clientY - rect_top r)
             filename\<rparr>)"

definition handleMouseMove :: "rect \<Rightarrow> real \<Rightarrow> real \<Rightarrow> tracker \<Rightarrow> tracker" where
  "handleMouseMove r clientX clientY s = setFromClient r clientX clientY s"

text \<open>
  \<^verbatim>\<open>handleTouch\<close>: \<open>touches\<close> is the event's list of touch points, each a pair
  (clientX, clientY). With no touch point the handler does nothing.
\<close>

definition handleTouch :: "rect \<Rightarrow> (real \<times> real) list \<Rightarrow> tracker \<Rightarrow> tracker" where
  "handleTouch r touches s =
     (case touches of
        [] \<Rightarrow> s
      | t # _ \<Rightarrow> (setFromClient r (fst t) (snd t) s)\<lparr>useOrientation := False\<rparr>)"

text \<open>
  \<^verbatim>\<open>e.beta || 0\<close>: an absent reading (null, undefined or NaN, here \<open>None\<close>) is 0,
  and a present one is itself (0 again when it is 0).
\<close>

definition or0 :: "real option \<Rightarrow> real" where
  "or0 v = (case v of None \<Rightarrow> 0 | Some x \<Rightarrow> x)"

definition handleOrientation :: "real option \<Rightarrow> real option \<Rightarrow> tracker \<Rightarrow> tracker" where
  "handleOrientation e_beta e_gamma s =
     (if \<not> useOrientation s then s
      else
        let s1 = (if \<not> hasCalibrated s
                  then s\<lparr>baseOrientation := \<lparr>beta = or0 e_beta, gamma = or0 e_gamma\<rparr>,
                         hasCalibrated := True\<rparr>
                  else s);
            b = or0 e_beta - beta (baseOrientation s1);
            g = or0 e_gamma - gamma (baseOrientation s1);
            nx = clamp (- g / 30) (- 1) 1;
            ny = clamp (- b / 30) (- 1) 1;
            px = quantizeToGrid nx;
            py = quantizeToGrid ny;
            filename = gridToFilename px py;
            imagePath = basePath s1 @ filename
        in s1\<lparr>img_src := imagePath,
               debugEl := (case debugEl s1 of
                             None \<Rightarrow> None
                           | Some _ \<Rightarrow> Some (OrientationText b g filename))\<rparr>)"

definition enableOrientation :: "tracker \<Rightarrow> tracker" where
  "enableOrientation s = s\<lparr>useOrientation := True, hasCalibrated := False\<rparr>"

definition disableOrientation :: "tracker \<Rightarrow> tracker" where
  "disableOrientation s = s\<lparr>useOrientation := False\<rparr>"

text \<open>
  \<^verbatim>\<open>initializeFaceTracker\<close>: the two data attributes of the container (absent:
  \<open>None\<close>) and its rectangle give the instance as it stands when the function returns,
  after the first \<^verbatim>\<open>setFromClient\<close> at the centre of the rectangle.
\<close>

definition initializeFaceTracker :: "string option \<Rightarrow> string option \<Rightarrow> rect \<Rightarrow> tracker" where
  "initializeFaceTracker data_basePath data_debug r =
     (let base = (case data_basePath of
                    None \<Rightarrow> ''/faces/''
                  | Some p \<Rightarrow> if p = [] then ''/faces/'' else p);
          showDebug = (data_debug = Some ''true'');
          s0 = \<lparr>basePath = base, img_src = [],
                debugEl = (if showDebug then Some Blank else None),
                useOrientation = False,
                baseOrientation = \<lparr>beta = 0, gamma = 0\<rparr>,
                hasCalibrated = False\<rparr>
      in setFromClient r (rect_left r + rect_width r / 2) (rect_top r + rect_height r / 2) s0)"

subsection \<open>Events\<close>

text \<open>
  What can reach an instance: the three kinds of listener registered in lines 117-120 and
  the two functions of the returned API (lines 127-135).
\<close>

datatype event =
  MouseMove rect real real
  | Touch rect "(real \<times> real) list"
  | DeviceOrientation "real option" "real option"
  | EnableOrientation
  | DisableOrientation

fun fire :: "event \<Rightarrow> tracker \<Rightarrow> tracker" where
  "fire (MouseMove r x y) s = handleMouseMove r x y s"
| "fire (Touch r ts) s = handleTouch r ts s"
| "fire (DeviceOrientation b g) s = handleOrientation b g s"
| "fire EnableOrientation s = enableOrientation s"
| "fire DisableOrientation s = disableOrientation s"

fun run :: "event list \<Rightarrow> tracker \<Rightarrow> tracker" where
  "run [] s = s"
| "run (e # es) s = run es (fire e s)"

fun is_enable :: "event \<Rightarrow> bool" where
  "is_enable EnableOrientation = True"
| "is_enable _ = False"

subsection \<open>The tie-break rules the specification names\<close>

text \<open>
  The two roundings the specification offers for the snapping step, written from its words:
  round half away from zero and round half to even, and the quantizer of one axis with
  such a rounding in the place of \<^verbatim>\<open>Math.round\<close>.
\<close>

definition spec_round_half_away :: "real \<Rightarrow> int" where
  "spec_round_half_away x = (if 0 \<le> x then \<lfloor>x + 1 / 2\<rfloor> else - \<lfloor>- x + 1 / 2\<rfloor>)"

definition spec_round_half_even :: "real \<Rightarrow> int" where
  "spec_round_half_even x =
     (let f = \<lfloor>x\<rfloor>; d = x - real_of_int f
      in if d < 1 / 2 then f
         else if 1 / 2 < d then f + 1
         else if even f then f else f + 1)"

definition spec_quantize_with :: "(real \<Rightarrow> int) \<Rightarrow> real \<Rightarrow> int" where
  "spec_quantize_with rnd val =
     clamp (rnd (raw_of (clamp val (- 1) 1) / real_of_int STEP) * STEP) P_MIN P_MAX"

text \<open>
  One axis of the quantizer in the specification's four steps: clamp the input to
  [-1, 1], map it linearly to [P_MIN, P_MAX], snap to a multiple of STEP, clamp again.
\<close>

definition spec_quantize_axis :: "real \<Rightarrow> int" where
  "spec_quantize_axis v =
     (let c = clamp v (- 1) 1;
          raw = real_of_int P_MIN + (c + 1) * real_of_int (P_MAX - P_MIN) / 2;
          snapped = Math_round (raw / real_of_int STEP) * STEP
      in clamp snapped P_MIN P_MAX)"

text \<open>
  The encoding of one coordinate in the specification's words: one fractional digit, the
  letter m for the minus sign and the letter p for the decimal point.
\<close>

definition spec_encode :: "int \<Rightarrow> string" where
  "spec_encode g = (if g < 0 then ''m'' else []) @ digits (nat \<bar>g\<bar>) @ ''p0''"

subsection \<open>A sample instance\<close>

text \<open>
  A container 200 wide and 100 high at the origin, the instance created on it with the
  default attributes, tilt mode enabled and calibrated by the reading beta = 40,
  gamma = -10, and a run of later events that does not enable tilt mode again.
\<close>

definition sample_rect :: rect where
  "sample_rect = \<lparr>rect_left = 0, rect_top = 0, rect_width = 200, rect_height = 100\<rparr>"

definition sample_tracker :: tracker where
  "sample_tracker = initializeFaceTracker None None sample_rect"

definition sample_calibrated :: tracker where
  "sample_calibrated =
     handleOrientation (Some 40) (Some (- 10)) (enableOrientation sample_tracker)"

definition sample_events :: "event list" where
  "sample_events =
     [DeviceOrientation (Some 70) (Some 5), MouseMove sample_rect 150 20,
      DeviceOrientation None (Some 3), Touch sample_rect []]"

section \<open>Properties of the quantizer\<close>

lemma quantizeToGrid_unfold:
  "quantizeToGrid v = clamp (\<lfloor>5 * v + 1 / 2\<rfloor> * 3) (- 15) 15"
proof -
  have "(- 15 + (v + 1) * 30 / 2) / 3 = 5 * v" by (simp add: field_simps)
  then show ?thesis
    by (simp add: quantizeToGrid_def snapped_of_def raw_of_def Math_round_def
        P_MIN_def P_MAX_def STEP_def)
qed

lemma clamp_multiple_in_grid: "clamp (k * 3) (- 15) 15 \<in> grid"
proof -
  consider "k < - 5" | "5 < k" | "- 5 \<le> k \<and> k \<le> 5" by linarith
  then show ?thesis
  proof cases
    case 1
    then show ?thesis by (simp add: clamp_def grid_def)
  next
    case 2
    then show ?thesis by (simp add: clamp_def grid_def)
  next
    case 3
    then have "k \<in> {- 5, - 4, - 3, - 2, - 1, 0, 1, 2, 3, 4, 5}" by simp arith
    then show ?thesis by (auto simp add: clamp_def grid_def)
  qed
qed

lemma quantizeToGrid_in_grid: "quantizeToGrid v \<in> grid"
  by (simp only: quantizeToGrid_unfold clamp_multiple_in_grid)

text \<open>
  C1 (range invariant). For all real inputs x and y, both components of
  \<open>quantize x y\<close> lie in the set {-15, -12, -9, -6, -3, 0, 3, 6, 9, 12, 15}; the same
  holds for \<open>quantizeToGrid\<close> on any real, clamped beforehand or not.
\<close>

theorem quantize_range:
  "fst (quantize x y) \<in> {- 15, - 12, - 9, - 6, - 3, 0, 3, 6, 9, 12, 15} \<and>
   snd (quantize x y) \<in> {- 15, - 12, - 9, - 6, - 3, 0, 3, 6, 9, 12, 15} \<and>
   quantizeToGrid x \<in> {- 15, - 12, - 9, - 6, - 3, 0, 3, 6, 9, 12, 15}"
  using quantizeToGrid_in_grid by (simp add: quantize_def grid_def)

subsection \<open>The four-step pipeline\<close>

text \<open>
  \<^verbatim>\<open>quantizeToGrid\<close> does not clamp its argument, its callers do; the final clamp
  makes the two agree on every real.
\<close>

lemma quantizeToGrid_clamp: "quantizeToGrid (clamp v (- 1) 1) = quantizeToGrid v"
proof -
  consider "v < - 1" | "1 < v" | "- 1 \<le> v \<and> v \<le> 1" by linarith
  then show ?thesis
  proof cases
    case 1
    then have "\<lfloor>5 * v + 1 / 2\<rfloor> \<le> - 5" by linarith
    with 1 show ?thesis by (simp add: quantizeToGrid_unfold clamp_def)
  next
    case 2
    then have "5 \<le> \<lfloor>5 * v + 1 / 2\<rfloor>" by linarith
    with 2 show ?thesis by (simp add: quantizeToGrid_unfold clamp_def)
  next
    case 3
    then show ?thesis by (simp add: clamp_def)
  qed
qed

text \<open>No multiple of STEP is closer to \<open>raw\<close> than \<open>snapped\<close> is.\<close>

lemma snapped_nearest:
  "\<bar>real_of_int (snapped_of v) - raw_of v\<bar> \<le> \<bar>real_of_int (k * STEP) - raw_of v\<bar>"
proof -
  define r where "r = raw_of v"
  define j where "j = \<lfloor>r / 3 + 1 / 2\<rfloor>"
  have lo: "real_of_int j \<le> r / 3 + 1 / 2" unfolding j_def by linarith
  have hi: "r / 3 + 1 / 2 < real_of_int j + 1" unfolding j_def by linarith
  have s: "snapped_of v = j * 3"
    by (simp add: snapped_of_def Math_round_def STEP_def j_def r_def)
  consider "k \<le> j - 1" | "k = j" | "j + 1 \<le> k" by linarith
  then have "\<bar>real_of_int (j * 3) - r\<bar> \<le> \<bar>real_of_int (k * 3) - r\<bar>"
  proof cases
    case 1
    then have "real_of_int k \<le> real_of_int j - 1" by linarith
    with lo hi show ?thesis by (simp add: abs_if; linarith)
  next
    case 2
    then show ?thesis by simp
  next
    case 3
    then have "real_of_int j + 1 \<le> real_of_int k" by linarith
    with lo hi show ?thesis by (simp add: abs_if; linarith)
  qed
  then show ?thesis by (simp add: s STEP_def r_def)
qed

text \<open>
  C2 (pipeline). For every real v, \<^verbatim>\<open>quantizeToGrid\<close> computes the four-step
  pipeline of the specification (clamp to [-1, 1], linear map, snap, clamp to
  [P_MIN, P_MAX]), and so does each axis of \<open>quantize\<close>; the snapped value is a multiple
  of STEP and no multiple of STEP is nearer to the raw value. At the inputs the
  specification lists: (-1, -1) gives (-15, -15), (1, 1) gives (15, 15), (2, -5) gives
  what (1, -1) gives, namely (15, -15), and (0, 0) gives (0, 0).
\<close>

theorem quantize_pipeline:
  "quantizeToGrid v = spec_quantize_axis v \<and>
   quantize x y = (spec_quantize_axis x, spec_quantize_axis y) \<and>
   STEP dvd snapped_of v \<and>
   (\<forall>k. \<bar>real_of_int (snapped_of v) - raw_of v\<bar> \<le> \<bar>real_of_int (k * STEP) - raw_of v\<bar>) \<and>
   quantize (- 1) (- 1) = (- 15, - 15) \<and>
   quantize 1 1 = (15, 15) \<and>
   quantize 2 (- 5) = quantize 1 (- 1) \<and>
   quantize 1 (- 1) = (15, - 15) \<and>
   quantize 0 0 = (0, 0)"
proof -
  have "spec_quantize_axis u = quantizeToGrid (clamp u (- 1) 1)" for u
    by (simp add: spec_quantize_axis_def quantizeToGrid_def snapped_of_def raw_of_def Let_def)
  then have a: "quantizeToGrid u = spec_quantize_axis u" for u
    by (simp add: quantizeToGrid_clamp)
  have b: "quantize x y = (spec_quantize_axis x, spec_quantize_axis y)"
    unfolding quantize_def quantizeToGrid_clamp by (simp only: a)
  have c: "STEP dvd snapped_of v" by (simp add: snapped_of_def)
  have e1: "quantize (- 1) (- 1) = (- 15, - 15)" by code_simp
  have e2: "quantize 1 1 = (15, 15)" by code_simp
  have e3: "quantize 2 (- 5) = quantize 1 (- 1)" by code_simp
  have e4: "quantize 1 (- 1) = (15, - 15)" by code_simp
  have e5: "quantize 0 0 = (0, 0)" by code_simp
  from a b c snapped_nearest e1 e2 e3 e4 e5 show ?thesis by blast
qed

subsection \<open>The tie-break of the snapping step\<close>

text \<open>
  C3, as stated, fails. The samples -3/10, 1/2 and -1/2 have raw values exactly halfway
  between two multiples of STEP (-4.5, 7.5 and -7.5). At -3/10 the code answers -3 where
  both named rules answer -6; at 1/2 it differs from round-half-to-even, and at -1/2 from
  round-half-away-from-zero.
\<close>

theorem snap_tie_break_counterexample:
  "raw_of (- 3 / 10) / real_of_int STEP = - 3 / 2 \<and>
   quantizeToGrid (- 3 / 10) = - 3 \<and>
   spec_quantize_with spec_round_half_away (- 3 / 10) = - 6 \<and>
   spec_quantize_with spec_round_half_even (- 3 / 10) = - 6 \<and>
   quantizeToGrid (1 / 2) = 9 \<and>
   spec_quantize_with spec_round_half_even (1 / 2) = 6 \<and>
   quantizeToGrid (- 1 / 2) = - 6 \<and>
   spec_quantize_with spec_round_half_away (- 1 / 2) = - 9"
  by code_simp

text \<open>
  C3 (tie-break), amended. The snapping step resolves every exact half-step input by one
  rule, round half up: when raw / STEP is k + 1/2 for an integer k, positive or negative,
  the snapped value is (k + 1) * STEP.
\<close>

theorem snap_tie_break_half_up:
  assumes "raw_of v / real_of_int STEP = real_of_int k + 1 / 2"
  shows "Math_round (raw_of v / real_of_int STEP) = k + 1 \<and>
         snapped_of v = (k + 1) * STEP \<and>
         quantizeToGrid v = clamp ((k + 1) * STEP) P_MIN P_MAX"
proof -
  have "Math_round (raw_of v / real_of_int STEP) = k + 1"
    unfolding Math_round_def assms by linarith
  then show ?thesis by (simp add: quantizeToGrid_def snapped_of_def)
qed

text \<open>The tie at the sample -3/10 (raw value -4.5, k = -2) snaps up to -3.\<close>

theorem snap_tie_break_half_up_witness:
  "raw_of (- 3 / 10) / real_of_int STEP = real_of_int (- 2) + 1 / 2 \<and>
   Math_round (raw_of (- 3 / 10) / real_of_int STEP) = - 1 \<and>
   snapped_of (- 3 / 10) = - 3 \<and>
   quantizeToGrid (- 3 / 10) = - 3"
proof -
  have h: "raw_of (- 3 / 10) / real_of_int STEP = real_of_int (- 2) + 1 / 2"
    by code_simp
  have c: "clamp ((- 2 + 1) * STEP) P_MIN P_MAX = - 3" by code_simp
  have s: "(- 2 + 1) * STEP = - 3" by code_simp
  from snap_tie_break_half_up [OF h] h c s show ?thesis by simp
qed

section \<open>Properties of the encoding\<close>

lemma digits_SIZE: "digits SIZE = ''256''"
  by code_simp

lemma sanitize_table:
  "map sanitize [- 15, - 12, - 9, - 6, - 3, 0, 3, 6, 9, 12, 15] =
     [''m15p0'', ''m12p0'', ''m9p0'', ''m6p0'', ''m3p0'', ''0p0'', ''3p0'', ''6p0'', ''9p0'',
      ''12p0'', ''15p0'']"
  by code_simp

lemma spec_encode_table:
  "map spec_encode [- 15, - 12, - 9, - 6, - 3, 0, 3, 6, 9, 12, 15] =
     [''m15p0'', ''m12p0'', ''m9p0'', ''m6p0'', ''m3p0'', ''0p0'', ''3p0'', ''6p0'', ''9p0'',
      ''12p0'', ''15p0'']"
  by code_simp

lemma sanitize_cases:
  assumes "g \<in> grid"
  shows "(g = - 15 \<and> sanitize g = ''m15p0'') \<or> (g = - 12 \<and> sanitize g = ''m12p0'') \<or>
         (g = - 9 \<and> sanitize g = ''m9p0'') \<or> (g = - 6 \<and> sanitize g = ''m6p0'') \<or>
         (g = - 3 \<and> sanitize g = ''m3p0'') \<or> (g = 0 \<and> sanitize g = ''0p0'') \<or>
         (g = 3 \<and> sanitize g = ''3p0'') \<or> (g = 6 \<and> sanitize g = ''6p0'') \<or>
         (g = 9 \<and> sanitize g = ''9p0'') \<or> (g = 12 \<and> sanitize g = ''12p0'') \<or>
         (g = 15 \<and> sanitize g = ''15p0'')"
  using assms sanitize_table unfolding grid_def by auto

lemma sanitize_grid:
  assumes "g \<in> grid"
  shows "sanitize g = spec_encode g"
  using sanitize_cases [OF assms] spec_encode_table by auto

text \<open>
  An encoded grid value followed by an underscore determines the value and what follows
  it: the eleven encodings differ pairwise within their first three characters.
\<close>

lemma sanitize_sep_inj:
  assumes "g1 \<in> grid" and "g2 \<in> grid"
    and "sanitize g1 @ CHR ''_'' # r1 = sanitize g2 @ CHR ''_'' # r2"
  shows "g1 = g2 \<and> r1 = r2"
  using sanitize_cases [OF assms(1)] sanitize_cases [OF assms(2)] assms(3)
  by (elim disjE conjE; simp)

lemma toFixed1_grid:
  assumes "g \<in> grid"
  shows "toFixed1 g = (if g < 0 then ''-'' else []) @ digits (nat \<bar>g\<bar>) @ ''.0''"
  using assms unfolding grid_def by (elim insertE emptyE; hypsubst; code_simp)

text \<open>
  C4 (format). For grid-valid px and py and the size 256, each coordinate is rendered with
  exactly one fractional digit (the sign, the digits of the magnitude, ".0"), and
  \<^verbatim>\<open>gridToFilename\<close> returns exactly gaze_px, the encoded px, _py, the encoded py
  and _256.webp, where the encoding has m for the minus sign and p for the decimal point;
  (0, 0) gives "gaze_px0p0_py0p0_256.webp" and (-3, 15) gives
  "gaze_pxm3p0_py15p0_256.webp".
\<close>

theorem gridToFilename_format:
  assumes "px \<in> grid" and "py \<in> grid"
  shows "toFixed1 px = (if px < 0 then ''-'' else []) @ digits (nat \<bar>px\<bar>) @ ''.0'' \<and>
         toFixed1 py = (if py < 0 then ''-'' else []) @ digits (nat \<bar>py\<bar>) @ ''.0'' \<and>
         sanitize px = spec_encode px \<and>
         sanitize py = spec_encode py \<and>
         gridToFilename px py =
           ''gaze_px'' @ spec_encode px @ ''_py'' @ spec_encode py @ ''_256.webp'' \<and>
         gridToFilename 0 0 = ''gaze_px0p0_py0p0_256.webp'' \<and>
         gridToFilename (- 3) 15 = ''gaze_pxm3p0_py15p0_256.webp''"
proof -
  have e1: "gridToFilename 0 0 = ''gaze_px0p0_py0p0_256.webp''" by code_simp
  have e2: "gridToFilename (- 3) 15 = ''gaze_pxm3p0_py15p0_256.webp''" by code_simp
  have "gridToFilename px py =
           ''gaze_px'' @ spec_encode px @ ''_py'' @ spec_encode py @ ''_256.webp''"
    by (simp add: gridToFilename_def sanitize_grid [OF assms(1)] sanitize_grid [OF assms(2)]
        digits_SIZE)
  with e1 e2 toFixed1_grid [OF assms(1)] toFixed1_grid [OF assms(2)]
    sanitize_grid [OF assms(1)] sanitize_grid [OF assms(2)]
  show ?thesis by (simp only: simp_thms)
qed

text \<open>The grid point (-12, 9) is encoded as "gaze_pxm12p0_py9p0_256.webp".\<close>

theorem gridToFilename_format_witness:
  "- 12 \<in> grid \<and> 9 \<in> grid \<and> gridToFilename (- 12) 9 = ''gaze_pxm12p0_py9p0_256.webp''"
proof -
  have h1: "- 12 \<in> grid" by (simp add: grid_def)
  have h2: "9 \<in> grid" by (simp add: grid_def)
  have e: "''gaze_px'' @ spec_encode (- 12) @ ''_py'' @ spec_encode 9 @ ''_256.webp'' =
           ''gaze_pxm12p0_py9p0_256.webp''" by code_simp
  from gridToFilename_format [OF h1 h2] have
    "gridToFilename (- 12) 9 =
       ''gaze_px'' @ spec_encode (- 12) @ ''_py'' @ spec_encode 9 @ ''_256.webp''"
    by (elim conjE)
  with e h1 h2 show ?thesis by (simp only: simp_thms)
qed

lemma gridToFilename_eq_iff:
  assumes "px1 \<in> grid" and "py1 \<in> grid" and "px2 \<in> grid" and "py2 \<in> grid"
  shows "(gridToFilename px1 py1 = gridToFilename px2 py2) = (px1 = px2 \<and> py1 = py2)"
proof
  assume "gridToFilename px1 py1 = gridToFilename px2 py2"
  then have "sanitize px1 @ CHR ''_'' # (''py'' @ sanitize py1 @ ''_256.webp'') =
             sanitize px2 @ CHR ''_'' # (''py'' @ sanitize py2 @ ''_256.webp'')"
    by (simp add: gridToFilename_def digits_SIZE)
  from sanitize_sep_inj [OF assms(1) assms(3) this]
  have px: "px1 = px2"
    and "sanitize py1 @ CHR ''_'' # ''256.webp'' = sanitize py2 @ CHR ''_'' # ''256.webp''"
    by simp_all
  from sanitize_sep_inj [OF assms(2) assms(4) this(2)] px
  show "px1 = px2 \<and> py1 = py2" by simp
next
  assume "px1 = px2 \<and> py1 = py2"
  then show "gridToFilename px1 py1 = gridToFilename px2 py2" by simp
qed

text \<open>
  C5 (injective encoding). Two grid-valid pairs have the same file name exactly when they
  are the same pair, so the encoding is injective on the grid, a bijection from the grid
  onto the set of its file names, and the pair can be recovered from the file name.
\<close>

theorem gridToFilename_injective:
  assumes "px1 \<in> grid" and "py1 \<in> grid" and "px2 \<in> grid" and "py2 \<in> grid"
  shows "((gridToFilename px1 py1 = gridToFilename px2 py2) = (px1 = px2 \<and> py1 = py2)) \<and>
         inj_on (\<lambda>(px, py). gridToFilename px py) (grid \<times> grid) \<and>
         bij_betw (\<lambda>(px, py). gridToFilename px py) (grid \<times> grid)
           ((\<lambda>(px, py). gridToFilename px py) ` (grid \<times> grid)) \<and>
         the_inv_into (grid \<times> grid) (\<lambda>(px, py). gridToFilename px py)
           (gridToFilename px1 py1) = (px1, py1)"
proof -
  let ?f = "\<lambda>(px, py). gridToFilename px py"
  have inj: "inj_on ?f (grid \<times> grid)"
    by (rule inj_onI) (auto simp add: gridToFilename_eq_iff)
  have "the_inv_into (grid \<times> grid) ?f (?f (px1, py1)) = (px1, py1)"
    using inj assms(1,2) by (intro the_inv_into_f_f) simp_all
  then have inv: "the_inv_into (grid \<times> grid) ?f (gridToFilename px1 py1) = (px1, py1)"
    by simp
  from gridToFilename_eq_iff [OF assms] inj inj_on_imp_bij_betw [OF inj] inv
  show ?thesis by (simp only: simp_thms)
qed

text \<open>The grid points (0, 0) and (-3, 15) have different file names.\<close>

theorem gridToFilename_injective_witness:
  "0 \<in> grid \<and> - 3 \<in> grid \<and> 15 \<in> grid \<and> gridToFilename 0 0 \<noteq> gridToFilename (- 3) 15"
proof -
  have h0: "0 \<in> grid" and h1: "- 3 \<in> grid" and h2: "15 \<in> grid"
    by (simp_all add: grid_def)
  from gridToFilename_injective [OF h0 h0 h1 h2]
  have "(gridToFilename 0 0 = gridToFilename (- 3) 15) = ((0::int) = - 3 \<and> (0::int) = 15)"
    by (rule conjunct1)
  with h0 h1 h2 show ?thesis by simp
qed

section \<open>Re-quantization\<close>

lemma quantizeToGrid_grid_point:
  assumes "g \<in> grid"
  shows "quantizeToGrid (real_of_int g / 15) = g"
proof -
  from assms obtain k where g: "g = k * 3" and k: "- 5 \<le> k" "k \<le> 5"
    unfolding grid_def by (elim insertE emptyE; force)
  have "5 * (real_of_int (k * 3) / 15) + 1 / 2 = real_of_int k + 1 / 2" by simp
  then have "\<lfloor>5 * (real_of_int g / 15) + 1 / 2\<rfloor> = k"
    unfolding g by (simp only:) linarith
  with k show ?thesis by (simp add: quantizeToGrid_unfold clamp_def g)
qed

text \<open>
  C6 (stability on grid points). For grid values px and py, the normalized sample whose
  linear image is the grid point (px / 15 and py / 15) quantizes to exactly (px, py), and
  encoding the re-quantized point gives the identifier of the point itself.
\<close>

theorem requantize_stable:
  assumes "px \<in> grid" and "py \<in> grid"
  shows "quantizeToGrid (real_of_int px / 15) = px \<and>
         quantize (real_of_int px / 15) (real_of_int py / 15) = (px, py) \<and>
         (case quantize (real_of_int px / 15) (real_of_int py / 15) of
            (qx, qy) \<Rightarrow> gridToFilename qx qy) = gridToFilename px py"
  using assms by (simp add: quantize_def quantizeToGrid_clamp quantizeToGrid_grid_point)

text \<open>The grid point (-3, 15), from the sample (-1/5, 1).\<close>

theorem requantize_stable_witness:
  "- 3 \<in> grid \<and> 15 \<in> grid \<and>
   quantizeToGrid (real_of_int (- 3) / 15) = - 3 \<and>
   quantize (real_of_int (- 3) / 15) (real_of_int 15 / 15) = (- 3, 15)"
proof -
  have h1: "- 3 \<in> grid" and h2: "15 \<in> grid" by (simp_all add: grid_def)
  from requantize_stable [OF h1 h2] h1 h2 show ?thesis by simp
qed

section \<open>Properties of the tracker instance\<close>

lemma setFromClient_flags:
  "useOrientation (setFromClient r x y s) = useOrientation s \<and>
   hasCalibrated (setFromClient r x y s) = hasCalibrated s \<and>
   baseOrientation (setFromClient r x y s) = baseOrientation s \<and>
   basePath (setFromClient r x y s) = basePath s"
  by (simp add: setFromClient_def Let_def)

text \<open>
  On a rectangle with a width and a height, \<^verbatim>\<open>setFromClient\<close> shows the asset of
  the quantized, normalized pointer offset.
\<close>

lemma setFromClient_finite:
  assumes "rect_width r \<noteq> 0" and "rect_height r \<noteq> 0"
  shows "img_src (setFromClient r x y s) =
           basePath s @
           (case quantize ((x - (rect_left r + rect_width r / 2)) / (rect_width r / 2))
                   ((rect_top r + rect_height r / 2 - y) / (rect_height r / 2)) of
              (px, py) \<Rightarrow> gridToFilename px py)"
  using assms
  by (simp add: setFromClient_def Let_def js_div_def quantizeToGrid_js_def
      gridToFilename_js_def sanitize_js_def gridToFilename_def quantize_def)

subsection \<open>Pointer input and tilt mode\<close>

text \<open>
  C7, as stated, fails for pointer input: on the sample instance with tilt mode enabled, a
  mouse move to (150, 20) updates the image and leaves tilt mode on.
\<close>

theorem pointer_mode_counterexample:
  "useOrientation (enableOrientation sample_tracker) \<and>
   useOrientation (handleMouseMove sample_rect 150 20 (enableOrientation sample_tracker)) \<and>
   img_src (handleMouseMove sample_rect 150 20 (enableOrientation sample_tracker)) =
     ''/faces/gaze_px9p0_py9p0_256.webp''"
  by code_simp

text \<open>
  C7 (mode exclusivity), amended. In every instance state, a touch event that carries at
  least one touch point leaves tilt mode disabled; a mouse move leaves the mode flag as it
  was; a touch event without a touch point changes nothing.
\<close>

theorem touch_disables_orientation:
  "useOrientation (handleTouch r (t # ts) s) = False \<and>
   useOrientation (handleMouseMove r x y s) = useOrientation s \<and>
   handleTouch r [] s = s"
  by (simp add: handleTouch_def handleMouseMove_def setFromClient_flags)

subsection \<open>Tilt calibration\<close>

lemma fire_keeps_calibration:
  assumes "hasCalibrated s" and "\<not> is_enable e"
  shows "hasCalibrated (fire e s) \<and> baseOrientation (fire e s) = baseOrientation s"
  using assms
  by (cases e)
    (simp_all add: handleMouseMove_def handleTouch_def handleOrientation_def
      disableOrientation_def setFromClient_flags Let_def split: list.split)

lemma fire_basePath: "basePath (fire e s) = basePath s"
  by (cases e)
    (simp_all add: handleMouseMove_def handleTouch_def handleOrientation_def
      enableOrientation_def disableOrientation_def setFromClient_flags Let_def
      split: list.split)

lemma run_basePath: "basePath (run es s) = basePath s"
  by (induction es arbitrary: s) (simp_all add: fire_basePath)

lemma run_keeps_calibration:
  assumes "hasCalibrated s" and "list_all (\<lambda>e. \<not> is_enable e) es"
  shows "hasCalibrated (run es s) \<and> baseOrientation (run es s) = baseOrientation s"
  using assms
proof (induction es arbitrary: s)
  case Nil
  then show ?case by simp
next
  case (Cons e es)
  from Cons.prems have e: "\<not> is_enable e" and es: "list_all (\<lambda>e. \<not> is_enable e) es"
    by simp_all
  from fire_keeps_calibration [OF Cons.prems(1) e]
  have c: "hasCalibrated (fire e s)" and b: "baseOrientation (fire e s) = baseOrientation s"
    by simp_all
  from Cons.IH [OF c es] b show ?case by simp
qed

lemma center_filename:
  "gridToFilename (quantizeToGrid 0) (quantizeToGrid 0) = ''gaze_px0p0_py0p0_256.webp''"
  by code_simp

lemma handleOrientation_first:
  assumes "useOrientation t" and "\<not> hasCalibrated t"
  shows "baseOrientation (handleOrientation e_beta e_gamma t) =
           \<lparr>beta = or0 e_beta, gamma = or0 e_gamma\<rparr> \<and>
         hasCalibrated (handleOrientation e_beta e_gamma t) \<and>
         basePath (handleOrientation e_beta e_gamma t) = basePath t \<and>
         img_src (handleOrientation e_beta e_gamma t) =
           basePath t @ ''gaze_px0p0_py0p0_256.webp''"
  using assms by (simp add: handleOrientation_def Let_def clamp_def center_filename)

lemma handleOrientation_at_baseline:
  assumes "useOrientation s" and "hasCalibrated s"
    and "baseOrientation s = \<lparr>beta = or0 e_beta, gamma = or0 e_gamma\<rparr>"
  shows "img_src (handleOrientation e_beta e_gamma s) =
           basePath s @ ''gaze_px0p0_py0p0_256.webp''"
  using assms by (simp add: handleOrientation_def Let_def clamp_def center_filename)

text \<open>
  C8 (calibration). Enabling orientation mode turns the mode on and marks the instance
  uncalibrated. In any state \<open>t\<close> with the mode on and no calibration (such as the one
  right after enabling), the first reading (state \<open>s1\<close>) is stored as the baseline, with
  an absent beta or gamma taken as 0, marks the instance calibrated and shows the centre
  asset. Whatever events follow without enabling the mode again (state \<open>s2\<close>), the
  instance stays calibrated with that same baseline. A later reading identical to the
  first then normalizes to (0, 0), which quantizes to the grid point (0, 0), and, with tilt
  mode still on, the centre asset is displayed and the baseline stays, whatever the raw
  values of beta and gamma are.
\<close>

theorem calibration_once:
  assumes "useOrientation t" and "\<not> hasCalibrated t"
    and "list_all (\<lambda>e. \<not> is_enable e) es"
  shows "let s1 = handleOrientation e_beta e_gamma t;
             s2 = run es s1
         in useOrientation (enableOrientation s) \<and>
            \<not> hasCalibrated (enableOrientation s) \<and>
            hasCalibrated s1 \<and>
            baseOrientation s1 = \<lparr>beta = or0 e_beta, gamma = or0 e_gamma\<rparr> \<and>
            img_src s1 = basePath t @ ''gaze_px0p0_py0p0_256.webp'' \<and>
            hasCalibrated s2 \<and>
            baseOrientation s2 = \<lparr>beta = or0 e_beta, gamma = or0 e_gamma\<rparr> \<and>
            clamp (- (or0 e_gamma - gamma (baseOrientation s2)) / 30) (- 1) 1 = 0 \<and>
            clamp (- (or0 e_beta - beta (baseOrientation s2)) / 30) (- 1) 1 = 0 \<and>
            quantize 0 0 = (0, 0) \<and>
            (useOrientation s2 \<longrightarrow>
               img_src (handleOrientation e_beta e_gamma s2) =
                 basePath t @ ''gaze_px0p0_py0p0_256.webp'' \<and>
               baseOrientation (handleOrientation e_beta e_gamma s2) = baseOrientation s2)"
proof -
  define s1 where "s1 = handleOrientation e_beta e_gamma t"
  define s2 where "s2 = run es s1"
  have f: "baseOrientation s1 = \<lparr>beta = or0 e_beta, gamma = or0 e_gamma\<rparr>"
    "hasCalibrated s1" "basePath s1 = basePath t"
    "img_src s1 = basePath t @ ''gaze_px0p0_py0p0_256.webp''"
    unfolding s1_def using handleOrientation_first [OF assms(1,2)] by simp_all
  from run_keeps_calibration [OF f(2) assms(3)]
  have k: "hasCalibrated s2"
    "baseOrientation s2 = \<lparr>beta = or0 e_beta, gamma = or0 e_gamma\<rparr>"
    unfolding s2_def by (simp_all add: f(1))
  have p: "basePath s2 = basePath t" unfolding s2_def by (simp add: run_basePath f(3))
  have z: "clamp (- (or0 e_gamma - gamma (baseOrientation s2)) / 30) (- 1) 1 = 0"
    "clamp (- (or0 e_beta - beta (baseOrientation s2)) / 30) (- 1) 1 = 0"
    by (simp_all add: k(2) clamp_def)
  have q: "quantize 0 0 = (0, 0)" by code_simp
  have e: "useOrientation (enableOrientation s)" "\<not> hasCalibrated (enableOrientation s)"
    by (simp_all add: enableOrientation_def)
  have i: "img_src (handleOrientation e_beta e_gamma s2) =
             basePath t @ ''gaze_px0p0_py0p0_256.webp'' \<and>
           baseOrientation (handleOrientation e_beta e_gamma s2) = baseOrientation s2"
    if u: "useOrientation s2"
    using handleOrientation_at_baseline [OF u k] p u k(1)
    by (simp add: handleOrientation_def Let_def)
  from e f k z q i show ?thesis
    unfolding Let_def s1_def [symmetric] s2_def [symmetric] by blast
qed

text \<open>
  On the sample instance, enabled and calibrated by the reading (40, -10): after two more
  readings, a mouse move and an empty touch event the baseline is still (40, -10), the
  image shows the last tilt, and the reading (40, -10) brings the centre asset back.
\<close>

theorem calibration_once_witness:
  "useOrientation (enableOrientation sample_tracker) \<and>
   \<not> hasCalibrated (enableOrientation sample_tracker) \<and>
   list_all (\<lambda>e. \<not> is_enable e) sample_events \<and>
   useOrientation (run sample_events sample_calibrated) \<and>
   baseOrientation (run sample_events sample_calibrated) = \<lparr>beta = 40, gamma = - 10\<rparr> \<and>
   img_src (run sample_events sample_calibrated) = ''/faces/gaze_pxm6p0_py15p0_256.webp'' \<and>
   img_src (handleOrientation (Some 40) (Some (- 10)) (run sample_events sample_calibrated)) =
     ''/faces/gaze_px0p0_py0p0_256.webp''"
proof -
  have h1: "useOrientation (enableOrientation sample_tracker)" by code_simp
  have h2: "\<not> hasCalibrated (enableOrientation sample_tracker)" by code_simp
  have h3: "list_all (\<lambda>e. \<not> is_enable e) sample_events" by code_simp
  have u: "useOrientation (run sample_events sample_calibrated)" by code_simp
  have i: "img_src (run sample_events sample_calibrated) =
             ''/faces/gaze_pxm6p0_py15p0_256.webp''"
    by code_simp
  have p: "basePath (enableOrientation sample_tracker) = ''/faces/''" by code_simp
  from calibration_once [OF h1 h2 h3, where e_beta = "Some 40" and e_gamma = "Some (- 10)"] u
  have "baseOrientation (run sample_events sample_calibrated) =
          \<lparr>beta = or0 (Some 40), gamma = or0 (Some (- 10))\<rparr> \<and>
        img_src (handleOrientation (Some 40) (Some (- 10))
            (run sample_events sample_calibrated)) =
          basePath (enableOrientation sample_tracker) @ ''gaze_px0p0_py0p0_256.webp''"
    unfolding Let_def sample_calibrated_def [symmetric] by blast
  with h1 h2 h3 u i p show ?thesis by (simp add: or0_def)
qed

subsection \<open>Tilt normalization\<close>

text \<open>
  C9 (tilt mode). On a tilt-enabled, calibrated instance a reading (beta, gamma) is
  normalized as follows. An absent beta or gamma counts as 0 (\<open>b\<close>, \<open>g\<close>); the deltas
  to the baseline are negated and divided by 30 (\<open>dx\<close> from gamma, \<open>dy\<close> from beta);
  each is cut to the interval [-1, 1] (\<open>nx\<close>, \<open>ny\<close>: -1 below -1, 1 above 1, itself in
  between). These are the values the code's \<^verbatim>\<open>e.beta || 0\<close> and
  \<^verbatim>\<open>clamp\<close> compute, both lie in [-1, 1], and the image shown is the base path
  followed by the file name of the quantized pair, a grid point; the baseline and both
  flags stay.
\<close>

theorem tilt_normalization:
  assumes "useOrientation s" and "hasCalibrated s"
  shows "let b = (case e_beta of None \<Rightarrow> 0 | Some x \<Rightarrow> x);
             g = (case e_gamma of None \<Rightarrow> 0 | Some x \<Rightarrow> x);
             dx = - (g - gamma (baseOrientation s)) / 30;
             dy = - (b - beta (baseOrientation s)) / 30;
             nx = (if dx < - 1 then - 1 else if 1 < dx then 1 else dx);
             ny = (if dy < - 1 then - 1 else if 1 < dy then 1 else dy)
         in or0 e_beta = b \<and> or0 e_gamma = g \<and>
            clamp dx (- 1) 1 = nx \<and> clamp dy (- 1) 1 = ny \<and>
            - 1 \<le> nx \<and> nx \<le> 1 \<and> - 1 \<le> ny \<and> ny \<le> 1 \<and>
            img_src (handleOrientation e_beta e_gamma s) =
              basePath s @ gridToFilename (quantizeToGrid nx) (quantizeToGrid ny) \<and>
            (quantizeToGrid nx, quantizeToGrid ny) = quantize nx ny \<and>
            quantizeToGrid nx \<in> grid \<and> quantizeToGrid ny \<in> grid \<and>
            baseOrientation (handleOrientation e_beta e_gamma s) = baseOrientation s \<and>
            hasCalibrated (handleOrientation e_beta e_gamma s) \<and>
            useOrientation (handleOrientation e_beta e_gamma s)"
proof -
  define b where "b = (case e_beta of None \<Rightarrow> 0 | Some x \<Rightarrow> x)"
  define g where "g = (case e_gamma of None \<Rightarrow> 0 | Some x \<Rightarrow> x)"
  define dx where "dx = - (g - gamma (baseOrientation s)) / 30"
  define dy where "dy = - (b - beta (baseOrientation s)) / 30"
  define nx where "nx = (if dx < - 1 then - 1 else if 1 < dx then 1 else dx)"
  define ny where "ny = (if dy < - 1 then - 1 else if 1 < dy then 1 else dy)"
  have o: "or0 e_beta = b" "or0 e_gamma = g"
    by (simp_all add: or0_def b_def g_def)
  have c: "clamp dx (- 1) 1 = nx" "clamp dy (- 1) 1 = ny"
    by (simp_all add: clamp_def nx_def ny_def)
  have r: "- 1 \<le> nx" "nx \<le> 1" "- 1 \<le> ny" "ny \<le> 1"
    by (simp_all add: nx_def ny_def)
  have h: "handleOrientation e_beta e_gamma s =
             s\<lparr>img_src := basePath s @ gridToFilename (quantizeToGrid nx) (quantizeToGrid ny),
               debugEl := (case debugEl s of
                             None \<Rightarrow> None
                           | Some _ \<Rightarrow> Some (OrientationText (b - beta (baseOrientation s))
                               (g - gamma (baseOrientation s))
                               (gridToFilename (quantizeToGrid nx) (quantizeToGrid ny))))\<rparr>"
    using assms unfolding handleOrientation_def Let_def o c [symmetric] dx_def dy_def
    by (simp only: if_True if_False not_True_eq_False not_False_eq_True simp_thms)
  have i: "img_src (handleOrientation e_beta e_gamma s) =
             basePath s @ gridToFilename (quantizeToGrid nx) (quantizeToGrid ny)"
    "baseOrientation (handleOrientation e_beta e_gamma s) = baseOrientation s"
    "hasCalibrated (handleOrientation e_beta e_gamma s)"
    "useOrientation (handleOrientation e_beta e_gamma s)"
    using assms by (simp_all add: h)
  have "quantize nx ny = (quantizeToGrid (clamp nx (- 1) 1), quantizeToGrid (clamp ny (- 1) 1))"
    by (simp only: quantize_def)
  then have q: "(quantizeToGrid nx, quantizeToGrid ny) = quantize nx ny"
    by (simp only: quantizeToGrid_clamp)
  from o c r i q quantizeToGrid_in_grid [of nx] quantizeToGrid_in_grid [of ny]
  show ?thesis
    unfolding Let_def b_def [symmetric] g_def [symmetric] dx_def [symmetric]
      dy_def [symmetric] nx_def [symmetric] ny_def [symmetric]
    by (simp only: simp_thms)
qed

text \<open>
  On the sample instance, calibrated at (40, -10): the reading (25, 8) gives nx = -0.6 and
  ny = 0.5, the grid point (-9, 9); the reading with beta absent and gamma = 50 gives
  deltas -40 and 60, which normalize to the bounds nx = -1 and ny = 1, the grid point
  (-15, 15).
\<close>

theorem tilt_normalization_witness:
  "useOrientation sample_calibrated \<and> hasCalibrated sample_calibrated \<and>
   baseOrientation sample_calibrated = \<lparr>beta = 40, gamma = - 10\<rparr> \<and>
   img_src (handleOrientation (Some 25) (Some 8) sample_calibrated) =
     ''/faces/gaze_pxm9p0_py9p0_256.webp'' \<and>
   or0 None = 0 \<and>
   clamp (- (or0 (Some 50) - (- 10)) / 30) (- 1) 1 = (- 1::real) \<and>
   clamp (- (or0 None - 40) / 30) (- 1) 1 = (1::real) \<and>
   img_src (handleOrientation None (Some 50) sample_calibrated) =
     ''/faces/gaze_pxm15p0_py15p0_256.webp''"
proof -
  have h1: "useOrientation sample_calibrated" by code_simp
  have h2: "hasCalibrated sample_calibrated" by code_simp
  have b: "baseOrientation sample_calibrated = \<lparr>beta = 40, gamma = - 10\<rparr>" by code_simp
  have p: "basePath sample_calibrated = ''/faces/''" by code_simp
  have f1: "gridToFilename (quantizeToGrid (- (3 / 5))) (quantizeToGrid (1 / 2)) =
              ''gaze_pxm9p0_py9p0_256.webp''" by code_simp
  have f2: "gridToFilename (quantizeToGrid (- 1)) (quantizeToGrid 1) =
              ''gaze_pxm15p0_py15p0_256.webp''" by code_simp
  from tilt_normalization [OF h1 h2, where e_beta = "Some 25" and e_gamma = "Some 8"]
  have w1: "img_src (handleOrientation (Some 25) (Some 8) sample_calibrated) =
              ''/faces/gaze_pxm9p0_py9p0_256.webp''"
    by (simp add: Let_def b p f1)
  from tilt_normalization [OF h1 h2, where e_beta = None and e_gamma = "Some 50"]
  have w2: "or0 None = 0 \<and>
            clamp (- (or0 (Some 50) - (- 10)) / 30) (- 1) 1 = (- 1::real) \<and>
            clamp (- (or0 None - 40) / 30) (- 1) 1 = (1::real) \<and>
            img_src (handleOrientation None (Some 50) sample_calibrated) =
              ''/faces/gaze_pxm15p0_py15p0_256.webp''"
    by (simp add: Let_def b p f2)
  from h1 h2 b w1 w2 show ?thesis by blast
qed

subsection \<open>Orientation events outside tilt mode\<close>

text \<open>
  C10 (frame). While orientation mode is disabled, a device-orientation event leaves the
  instance as it is: no baseline is captured, both flags keep their values and the image
  and the debug element are not updated.
\<close>

theorem orientation_ignored_when_disabled:
  assumes "\<not> useOrientation s"
  shows "handleOrientation e_beta e_gamma s = s"
  using assms by (simp add: handleOrientation_def)

text \<open>The sample instance, fresh from its initialization, ignores the reading (40, -10).\<close>

theorem orientation_ignored_when_disabled_witness:
  "\<not> useOrientation sample_tracker \<and>
   handleOrientation (Some 40) (Some (- 10)) sample_tracker = sample_tracker"
proof -
  have h: "\<not> useOrientation sample_tracker" by code_simp
  from orientation_ignored_when_disabled [OF h] h show ?thesis by (simp only: simp_thms)
qed


end
